theory Spec2Isabelle
  imports Complex_Main "HOL-Library.Sublist"
begin

section \<open>Python values used by the notebooks' glue code\<close>

text \<open>
  The repository is two notebooks. Their own code is a handful of functions
  (\<open>embed\<close>, \<open>rag\<close>, \<open>retrieve_documents\<close>, \<open>generate_answer\<close>, \<open>get_docs\<close>,
  \<open>generate\<close>) and one batched insertion loop; everything else is a call into a
  library. The functions are embedded below as they are written, with the library
  calls they make taken as parameters.
\<close>

datatype py_error = IndexError | KeyError | AssertionError | LibraryError

text \<open>\<open>xs[i]\<close> on a Python list: a negative index counts from the end, and an index
  outside \<open>[-len, len)\<close> raises \<open>IndexError\<close>.\<close>

definition py_getitem :: "'a list \<Rightarrow> int \<Rightarrow> py_error + 'a" where
  "py_getitem xs i =
     (if 0 \<le> i \<and> i < int (length xs) then Inr (xs ! nat i)
      else if - int (length xs) \<le> i \<and> i < 0 then Inr (xs ! nat (int (length xs) + i))
      else Inl IndexError)"

text \<open>\<open>[f(x) for x in xs]\<close> where \<open>f\<close> may raise: the first exception leaves the
  comprehension.\<close>

fun py_comprehension :: "('a \<Rightarrow> py_error + 'b) \<Rightarrow> 'a list \<Rightarrow> py_error + 'b list" where
  "py_comprehension f [] = Inr []"
| "py_comprehension f (x # xs) =
     (case f x of
        Inl e \<Rightarrow> Inl e
      | Inr y \<Rightarrow> (case py_comprehension f xs of Inl e \<Rightarrow> Inl e | Inr ys \<Rightarrow> Inr (y # ys)))"

text \<open>\<open>sep.join(xs)\<close>.\<close>

fun py_join :: "string \<Rightarrow> string list \<Rightarrow> string" where
  "py_join sep [] = []"
| "py_join sep [x] = x"
| "py_join sep (x # y # ys) = x @ sep @ py_join sep (y # ys)"

section \<open>Prompt assembly\<close>

text \<open>\<open>rag\<close>: \<open>input_text = " ".join(retrieved_docs) + " " + question\<close>.\<close>

definition rag_input_text :: "string list \<Rightarrow> string \<Rightarrow> string" where
  "rag_input_text retrieved_docs question = py_join '' '' retrieved_docs @ '' '' @ question"

text \<open>\<open>generate_answer\<close>:
  \<open>context = " ".join(retrieved_docs)\<close>,
  \<open>input_text = f"summarize: question: {question} context: {context}"\<close>.\<close>

definition generate_answer_input_text :: "string \<Rightarrow> string list \<Rightarrow> string" where
  "generate_answer_input_text question retrieved_docs =
     (let context = py_join '' '' retrieved_docs
      in ''summarize: question: '' @ question @ '' context: '' @ context)"

text \<open>\<open>generate\<close>: the parenthesised expression is four adjacent string literals
  followed by \<open>.join(docs)\<close>. Python concatenates adjacent literals before the method
  call applies, so the receiver of \<open>join\<close> is the whole concatenated literal.\<close>

definition system_literal :: string where
  "system_literal =
     ''You are a helpful assistant that answers questions about AI using the '' @
     ''context provided below.'' @ [CHR 0x0A, CHR 0x0A] @
     ''CONTEXT:'' @ [CHR 0x0A] @
     [CHR 0x0A] @ ''---'' @ [CHR 0x0A]"

record message =
  role :: string
  content :: string

definition generate_messages :: "string \<Rightarrow> string list \<Rightarrow> message list" where
  "generate_messages query docs =
     (let system_message = py_join system_literal docs
      in [\<lparr>role = ''system'', content = system_message\<rparr>,
          \<lparr>role = ''user'', content = query\<rparr>])"

section \<open>FAISS notebook: embedding, indexing, retrieval, generation\<close>

type_synonym vec = "real list"

text \<open>The three operations of a FAISS index that the notebook calls. The index is a
  library object: its state has an abstract type, and \<open>search\<close> returns the state after
  the call next to its result, a pair \<open>(distances, indices)\<close> with one row per query
  vector. Float32 components are taken as reals.\<close>

record 'ix faiss_lib =
  IndexFlatL2 :: "nat \<Rightarrow> 'ix"
  index_add :: "'ix \<Rightarrow> vec list \<Rightarrow> 'ix"
  index_search :: "'ix \<Rightarrow> vec list \<Rightarrow> nat \<Rightarrow> (py_error + real list list \<times> int list list) \<times> 'ix"

text \<open>The notebook's module-level names. A function of the notebook reads them when it
  is called, not when it is defined. \<open>model\<close> stands for
  \<open>model(**inputs).last_hidden_state\<close> (batch \<open>\<times>\<close> tokens \<open>\<times>\<close> hidden). The three
  generator fields stand for tokenising the prompt with truncation (to \<open>max_length\<close>
  when one is given), for \<open>generator_model.generate\<close> with its \<open>max_length\<close>,
  \<open>num_beams\<close> and \<open>early_stopping\<close>, and for \<open>generator_tokenizer.decode\<close>.\<close>

record ('tok, 'ix) faiss_globals =
  documents :: "string list"
  tokenizer :: "string list \<Rightarrow> 'tok"
  model :: "'tok \<Rightarrow> real list list list"
  embedder_encode :: "string list \<Rightarrow> vec list"
  document_embeddings :: "vec list"
  index :: 'ix
  generator_tokenizer_encode :: "nat option \<Rightarrow> string \<Rightarrow> int list"
  generator_model_generate :: "nat \<Rightarrow> nat \<Rightarrow> bool \<Rightarrow> int list \<Rightarrow> int list list"
  generator_tokenizer_decode :: "int list \<Rightarrow> string"

text \<open>\<open>t.mean(dim=1)\<close> on a tensor of shape batch \<open>\<times>\<close> tokens \<open>\<times>\<close> hidden: for every batch
  row, the mean over its token vectors, component by component. (A list of rows does
  not record the hidden dimension of a row without tokens; such a row gives \<open>[]\<close>.)\<close>

definition mean_tokens :: "real list list \<Rightarrow> real list" where
  "mean_tokens row =
     (case row of
        [] \<Rightarrow> []
      | v # vs \<Rightarrow> map (\<lambda>h. (\<Sum>t\<leftarrow>row. t ! h) / real (length row)) [0..<length v])"

definition mean_dim1 :: "real list list list \<Rightarrow> real list list" where
  "mean_dim1 t = map mean_tokens t"

text \<open>\<open>embed(texts)\<close>.\<close>

definition embed :: "('tok, 'ix) faiss_globals \<Rightarrow> string list \<Rightarrow> vec list" where
  "embed g texts =
     (let inputs = tokenizer g texts;
          embeddings = mean_dim1 (model g inputs)
      in embeddings)"

text \<open>\<open>a.shape[1]\<close> of a two-dimensional array given by its rows (0 when there is no
  row to read it from).\<close>

definition shape1 :: "'a list list \<Rightarrow> nat" where
  "shape1 a = (case a of [] \<Rightarrow> 0 | v # vs \<Rightarrow> length v)"

text \<open>The statements of the first example that build the index:
  \<open>document_embeddings = embed(documents)\<close>,
  \<open>index = faiss.IndexFlatL2(document_embeddings.shape[1])\<close>,
  \<open>index.add(document_embeddings)\<close>.\<close>

definition build_index_embed ::
  "'ix faiss_lib \<Rightarrow> ('tok, 'ix) faiss_globals \<Rightarrow> ('tok, 'ix) faiss_globals" where
  "build_index_embed lib g =
     (let g1 = g\<lparr>document_embeddings := embed g (documents g)\<rparr>;
          g2 = g1\<lparr>index := IndexFlatL2 lib (shape1 (document_embeddings g1))\<rparr>
      in g2\<lparr>index := index_add lib (index g2) (document_embeddings g2)\<rparr>)"

text \<open>The same statements of the second example:
  \<open>document_embeddings = embedder.encode(documents)\<close>,
  \<open>d = document_embeddings.shape[1]\<close>, \<open>index = faiss.IndexFlatL2(d)\<close>,
  \<open>index.add(document_embeddings)\<close>.\<close>

definition build_index_embedder ::
  "'ix faiss_lib \<Rightarrow> ('tok, 'ix) faiss_globals \<Rightarrow> ('tok, 'ix) faiss_globals" where
  "build_index_embedder lib g =
     (let g1 = g\<lparr>document_embeddings := embedder_encode g (documents g)\<rparr>;
          d = shape1 (document_embeddings g1);
          g2 = g1\<lparr>index := IndexFlatL2 lib d\<rparr>
      in g2\<lparr>index := index_add lib (index g2) (document_embeddings g2)\<rparr>)"

text \<open>\<open>retrieved_docs = [documents[idx] for idx in indices[0]]\<close>.\<close>

definition retrieved_docs :: "string list \<Rightarrow> int list list \<Rightarrow> py_error + string list" where
  "retrieved_docs docs indices =
     (case py_getitem indices 0 of
        Inl e \<Rightarrow> Inl e
      | Inr row \<Rightarrow> py_comprehension (\<lambda>idx. py_getitem docs idx) row)"

text \<open>The first three statements of \<open>rag\<close> and of \<open>retrieve_documents\<close> are the same up
  to the embedder they call (\<open>embed\<close> in the first, \<open>embedder.encode\<close> in the second):
  embed the one-element list of the query, search the index, read the documents at
  the returned indices.\<close>

definition retrieve ::
  "'ix faiss_lib \<Rightarrow> (string list \<Rightarrow> vec list) \<Rightarrow> ('tok, 'ix) faiss_globals \<Rightarrow> string \<Rightarrow> nat
     \<Rightarrow> (py_error + string list) \<times> ('tok, 'ix) faiss_globals" where
  "retrieve lib embedder g query k =
     (let query_embedding = embedder [query];
          (r, index') = index_search lib (index g) query_embedding k;
          g' = g\<lparr>index := index'\<rparr>
      in case r of
           Inl e \<Rightarrow> (Inl e, g')
         | Inr (distances, indices) \<Rightarrow> (retrieved_docs (documents g') indices, g'))"

text \<open>\<open>retrieve_documents(query, k=2)\<close>.\<close>

definition retrieve_documents ::
  "'ix faiss_lib \<Rightarrow> ('tok, 'ix) faiss_globals \<Rightarrow> string \<Rightarrow> nat
     \<Rightarrow> (py_error + string list) \<times> ('tok, 'ix) faiss_globals" where
  "retrieve_documents lib g query k = retrieve lib (embedder_encode g) g query k"

text \<open>Tokenise the prompt, generate, decode \<open>outputs[0]\<close>: the last three statements of
  \<open>rag\<close> and of \<open>generate_answer\<close>, which differ in the parameters they pass.\<close>

definition run_generator ::
  "('tok, 'ix) faiss_globals \<Rightarrow> nat option \<Rightarrow> nat \<Rightarrow> nat \<Rightarrow> bool \<Rightarrow> string
     \<Rightarrow> py_error + string" where
  "run_generator g tokens_max max_length num_beams early_stopping input_text =
     (let inputs = generator_tokenizer_encode g tokens_max input_text;
          outputs = generator_model_generate g max_length num_beams early_stopping inputs
      in case py_getitem outputs 0 of
           Inl e \<Rightarrow> Inl e
         | Inr output \<Rightarrow> Inr (generator_tokenizer_decode g output))"

text \<open>\<open>rag(question, top_k=1)\<close>.\<close>

definition rag ::
  "'ix faiss_lib \<Rightarrow> ('tok, 'ix) faiss_globals \<Rightarrow> string \<Rightarrow> nat
     \<Rightarrow> (py_error + string) \<times> ('tok, 'ix) faiss_globals" where
  "rag lib g question top_k =
     (case retrieve lib (embed g) g question top_k of
        (Inl e, g') \<Rightarrow> (Inl e, g')
      | (Inr docs, g') \<Rightarrow>
          (run_generator g' None 50 2 False (rag_input_text docs question), g'))"

text \<open>\<open>generate_answer(question, retrieved_docs)\<close>.\<close>

definition generate_answer ::
  "('tok, 'ix) faiss_globals \<Rightarrow> string \<Rightarrow> string list
     \<Rightarrow> (py_error + string) \<times> ('tok, 'ix) faiss_globals" where
  "generate_answer g question docs =
     (run_generator g (Some 512) 150 5 True (generate_answer_input_text question docs), g)"

section \<open>ChromaDB notebook: dataset preparation, batched insertion, retrieval\<close>

text \<open>A metadata value is a Python dict from strings to strings.\<close>

type_synonym metadata = "string \<rightharpoonup> string"

text \<open>A row of the loaded dataset (the columns the notebook keeps), and a row after
  \<open>data.map(lambda x: {"id": x["id"], "metadata": {"title": x["title"],
  "content": x["content"]}})\<close> and \<open>remove_columns\<close>.\<close>

record raw_row =
  raw_id :: string
  title :: string
  content' :: string

record row =
  row_id :: string
  metadata :: metadata

definition prepare_row :: "raw_row \<Rightarrow> row" where
  "prepare_row x =
     \<lparr>row_id = raw_id x,
      metadata = [''title'' \<mapsto> title x, ''content'' \<mapsto> content' x]\<rparr>"

definition prepare_data :: "raw_row list \<Rightarrow> row list" where
  "prepare_data raw = map prepare_row raw"

text \<open>What \<open>collection.query\<close> returns: one inner list per query embedding.\<close>

record query_results =
  ids :: "string list list"
  metadatas :: "metadata list list"
  distances :: "real list list"

text \<open>The two methods of a ChromaDB collection that the notebook calls. The collection
  is a library object: its state has an abstract type, and \<open>query\<close> returns the state
  after the call next to its result.\<close>

record 'c chroma_lib =
  collection_add :: "'c \<Rightarrow> vec list \<Rightarrow> metadata list \<Rightarrow> string list \<Rightarrow> 'c"
  collection_query :: "'c \<Rightarrow> vec list \<Rightarrow> nat \<Rightarrow> (py_error + query_results) \<times> 'c"

text \<open>The notebook's module-level names. There is one collection object; the
  \<open>collection\<close> argument of \<open>get_docs\<close> is that object. \<open>groq_chat\<close> stands for
  \<open>groq_client.chat.completions.create(model, messages)\<close> and returns the message
  contents of the response's choices.\<close>

record 'c chroma_globals =
  data :: "row list"
  encoder :: "string list \<Rightarrow> vec list"
  collection :: 'c
  groq_chat :: "string \<Rightarrow> message list \<Rightarrow> py_error + string list"

definition batch_size :: nat where
  "batch_size = 128"

text \<open>\<open>range(start, stop, step)\<close> for a positive step.\<close>

function py_range :: "nat \<Rightarrow> nat \<Rightarrow> nat \<Rightarrow> nat list" where
  "py_range i stop step =
     (if 0 < step \<and> i < stop then i # py_range (i + step) stop step else [])"
  by pat_completeness auto
termination
  by (relation "measure (\<lambda>(i, stop, step). stop - i)") auto

text \<open>\<open>xs[i:j]\<close> for non-negative \<open>i\<close> and \<open>j\<close>.\<close>

definition py_slice :: "'a list \<Rightarrow> nat \<Rightarrow> nat \<Rightarrow> 'a list" where
  "py_slice xs i j = drop i (take j xs)"

text \<open>\<open>x[key]\<close> on a dict.\<close>

definition py_dict_getitem :: "('k \<rightharpoonup> 'v) \<Rightarrow> 'k \<Rightarrow> py_error + 'v" where
  "py_dict_getitem m k = (case m k of None \<Rightarrow> Inl KeyError | Some v \<Rightarrow> Inr v)"

text \<open>\<open>m.get(key, default)\<close> on a dict.\<close>

definition py_dict_get :: "('k \<rightharpoonup> 'v) \<Rightarrow> 'k \<Rightarrow> 'v \<Rightarrow> 'v" where
  "py_dict_get m k dflt = (case m k of None \<Rightarrow> dflt | Some v \<Rightarrow> v)"

text \<open>\<open>f'{x["title"]}: {x["content"]}'\<close>.\<close>

definition chunk :: "metadata \<Rightarrow> py_error + string" where
  "chunk x =
     (case py_dict_getitem x ''title'' of
        Inl e \<Rightarrow> Inl e
      | Inr t \<Rightarrow>
          (case py_dict_getitem x ''content'' of
             Inl e \<Rightarrow> Inl e
           | Inr c \<Rightarrow> Inr (t @ '': '' @ c)))"

text \<open>A \<open>for\<close> loop whose body may raise.\<close>

fun for_loop :: "('s \<Rightarrow> 'a \<Rightarrow> py_error + 's) \<Rightarrow> 'a list \<Rightarrow> 's \<Rightarrow> py_error + 's" where
  "for_loop body [] s = Inr s"
| "for_loop body (x # xs) s =
     (case body s x of Inl e \<Rightarrow> Inl e | Inr s' \<Rightarrow> for_loop body xs s')"

text \<open>The body of the insertion loop, for the batch that starts at \<open>i\<close>. Slicing the
  dataset gives a dict of columns, so \<open>batch['metadata']\<close> and \<open>batch['id']\<close> are the two
  columns of the slice. (\<open>to_upsert\<close> is computed and never used.)\<close>

definition insert_batch ::
  "'c chroma_lib \<Rightarrow> 'c chroma_globals \<Rightarrow> nat \<Rightarrow> py_error + 'c chroma_globals" where
  "insert_batch lib g i =
     (let i_end = min (length (data g)) (i + batch_size);
          batch = py_slice (data g) i i_end;
          batch_metadata = map metadata batch;
          ids = map row_id batch
      in if length batch_metadata \<noteq> length ids then Inl AssertionError
         else
           (case py_comprehension chunk batch_metadata of
              Inl e \<Rightarrow> Inl e
            | Inr chunks \<Rightarrow>
                (let embeds = encoder g chunks
                 in if length embeds \<noteq> length ids then Inl AssertionError
                    else Inr (g\<lparr>collection :=
                                collection_add lib (collection g) embeds batch_metadata ids\<rparr>))))"

text \<open>\<open>for i in tqdm(range(0, len(data), batch_size)): ...\<close>\<close>

definition insert_all :: "'c chroma_lib \<Rightarrow> 'c chroma_globals \<Rightarrow> py_error + 'c chroma_globals" where
  "insert_all lib g =
     for_loop (insert_batch lib) (py_range 0 (length (data g)) batch_size) g"

text \<open>The batches the loop visits, in order.\<close>

definition batches :: "'a list \<Rightarrow> 'a list list" where
  "batches xs =
     map (\<lambda>i. py_slice xs i (min (length xs) (i + batch_size)))
       (py_range 0 (length xs) batch_size)"

text \<open>\<open>get_docs(query, top_k, collection)\<close>.\<close>

definition get_docs ::
  "'c chroma_lib \<Rightarrow> 'c chroma_globals \<Rightarrow> string \<Rightarrow> nat
     \<Rightarrow> (py_error + string list) \<times> 'c chroma_globals" where
  "get_docs lib g query top_k =
     (let xq = encoder g [query];
          (r, collection') = collection_query lib (collection g) xq top_k;
          g' = g\<lparr>collection := collection'\<rparr>
      in case r of
           Inl e \<Rightarrow> (Inl e, g')
         | Inr results \<Rightarrow>
             (Inr (concat (map (map (\<lambda>metadata. py_dict_get metadata ''content'' []))
                     (metadatas results))),
              g'))"

text \<open>\<open>generate(query, docs)\<close>.\<close>

definition generate ::
  "'c chroma_globals \<Rightarrow> string \<Rightarrow> string list \<Rightarrow> (py_error + string) \<times> 'c chroma_globals" where
  "generate g query docs =
     (let messages = generate_messages query docs
      in case groq_chat g ''llama3-70b-8192'' messages of
           Inl e \<Rightarrow> (Inl e, g)
         | Inr choices \<Rightarrow>
             (case py_getitem choices 0 of
                Inl e \<Rightarrow> (Inl e, g)
              | Inr answer \<Rightarrow> (Inr answer, g)))"

text \<open>What one iteration hands to \<open>collection.add\<close> for a batch of dataset rows.\<close>

definition add_batch :: "'c chroma_lib \<Rightarrow> (string list \<Rightarrow> vec list) \<Rightarrow> 'c \<Rightarrow> raw_row list \<Rightarrow> 'c" where
  "add_batch lib enc c b =
     collection_add lib c
       (enc (map (\<lambda>x. title x @ '': '' @ content' x) b))
       (map (\<lambda>x. metadata (prepare_row x)) b)
       (map raw_id b)"

section \<open>Nearest-neighbour search as the specification describes it\<close>

text \<open>Modelled from the spec: the distance of \<open>index.search\<close> (FAISS \<open>IndexFlatL2\<close>) and
  of \<open>collection.query\<close> (ChromaDB), which are library code and not among the
  repository's sources. The specification names the metric "L2"; both libraries
  report the squared Euclidean distance.\<close>

definition l2sq :: "vec \<Rightarrow> vec \<Rightarrow> real" where
  "l2sq x y = sum_list (map2 (\<lambda>a b. (a - b)^2) x y)"

text \<open>Modelled from the spec: "\<open>search(query_embedding, k)\<close> returns the k nearest
  document identifiers by the configured distance metric", "at most min(k, N)
  results, ordered by non-decreasing distance". The identifier of a vector is its
  position in the index. Ties are left to the implementation by the specification;
  here the earlier position comes first.\<close>

definition nearest :: "vec list \<Rightarrow> vec \<Rightarrow> nat \<Rightarrow> (nat \<times> real) list" where
  "nearest xb q k = take k (sort_key snd (zip [0..<length xb] (map (l2sq q) xb)))"

text \<open>Modelled from the spec: a FAISS flat index as the list of the vectors added to
  it; \<open>search\<close> answers every query vector with the distances and the positions of its
  nearest vectors, and leaves the index as it is ("read-only during query time").\<close>

definition flat_lib :: "vec list faiss_lib" where
  "flat_lib =
     \<lparr>IndexFlatL2 = (\<lambda>d. []),
      index_add = (\<lambda>ix vs. ix @ vs),
      index_search = (\<lambda>ix qs k.
        (Inr (map (\<lambda>q. map snd (nearest ix q k)) qs,
              map (\<lambda>q. map (\<lambda>p. int (fst p)) (nearest ix q k)) qs), ix))\<rparr>"

text \<open>Modelled from the spec: a ChromaDB collection as the list of the records
  (id, embedding, metadata) added to it; \<open>query\<close> answers every query embedding with
  the ids, metadata and distances of its nearest records, and leaves the collection as
  it is.\<close>

definition flat_collection_lib :: "(string \<times> vec \<times> metadata) list chroma_lib" where
  "flat_collection_lib =
     \<lparr>collection_add = (\<lambda>c embeds metas ids. c @ zip ids (zip embeds metas)),
      collection_query = (\<lambda>c qs k.
        (Inr \<lparr>ids = map (\<lambda>q. map (\<lambda>p. fst (c ! fst p))
                      (nearest (map (\<lambda>r. fst (snd r)) c) q k)) qs,
               metadatas = map (\<lambda>q. map (\<lambda>p. snd (snd (c ! fst p)))
                      (nearest (map (\<lambda>r. fst (snd r)) c) q k)) qs,
               distances = map (\<lambda>q. map snd
                      (nearest (map (\<lambda>r. fst (snd r)) c) q k)) qs\<rparr>, c))\<rparr>"

section \<open>Small instances of the libraries and of the notebooks' globals\<close>

text \<open>Small concrete globals: a tokenizer that maps a text to its character codes, a
  model that returns two token vectors of dimension 2 per text, an embedder for the
  second example, and a generator that echoes the length of its prompt.\<close>

definition example_faiss_globals :: "(nat list list, vec list) faiss_globals" where
  "example_faiss_globals =
     \<lparr>documents = [''A'', ''B''],
      tokenizer = (\<lambda>texts. map (map of_char) texts),
      model = (\<lambda>toks. map (\<lambda>t. [[real (length t), 0], [real (length t) + 2, 4]]) toks),
      embedder_encode = (\<lambda>texts. map (\<lambda>t. if t = ''A'' then [1, 0] else [0, 1]) texts),
      document_embeddings = [],
      index = [],
      generator_tokenizer_encode = (\<lambda>m s. [int (length s)]),
      generator_model_generate = (\<lambda>m b e inputs. [inputs]),
      generator_tokenizer_decode = (\<lambda>out. replicate (length out) CHR ''x'')\<rparr>"

text \<open>A library instance whose search answers five requested neighbours with three
  positions and two unfilled slots, which it marks \<open>-1\<close> (and the largest float32 as
  their distance), and globals with three documents.\<close>

definition padded_search_lib :: "unit faiss_lib" where
  "padded_search_lib =
     \<lparr>IndexFlatL2 = (\<lambda>d. ()),
      index_add = (\<lambda>ix vs. ix),
      index_search = (\<lambda>ix qs k.
        (Inr ([[0, 1, 2, 340282346638528859811704183484516925440,
                340282346638528859811704183484516925440]],
              [[0, 2, 1, - 1, - 1]]), ix))\<rparr>"

definition three_documents :: "(nat list list, unit) faiss_globals" where
  "three_documents =
     \<lparr>documents = [''d0'', ''d1'', ''d2''],
      tokenizer = (\<lambda>texts. map (map of_char) texts),
      model = (\<lambda>toks. map (\<lambda>t. [[real (length t)]]) toks),
      embedder_encode = (\<lambda>texts. map (\<lambda>t. [real (length t)]) texts),
      document_embeddings = [],
      index = (),
      generator_tokenizer_encode = (\<lambda>m s. [int (length s)]),
      generator_model_generate = (\<lambda>m b e inputs. [inputs]),
      generator_tokenizer_decode = (\<lambda>out. replicate (length out) CHR ''x'')\<rparr>"

text \<open>A library instance whose search answers with the positions 2 and 0.\<close>

definition two_hits_lib :: "unit faiss_lib" where
  "two_hits_lib =
     \<lparr>IndexFlatL2 = (\<lambda>d. ()),
      index_add = (\<lambda>ix vs. ix),
      index_search = (\<lambda>ix qs k. (Inr ([[1, 2]], [[2, 0]]), ix))\<rparr>"

text \<open>A collection whose query answers with two records, the second without a
  "content" key.\<close>

definition example_query_results :: query_results where
  "example_query_results =
     \<lparr>ids = [[''a'', ''b'']],
      metadatas = [[[''content'' \<mapsto> ''x''], [''title'' \<mapsto> ''t'']]],
      distances = [[0, 1]]\<rparr>"

definition example_query_globals :: "unit chroma_globals" where
  "example_query_globals =
     \<lparr>data = [], encoder = (\<lambda>texts. map (\<lambda>t. [0]) texts), collection = (),
      groq_chat = (\<lambda>m msgs. Inr [])\<rparr>"

definition example_query_lib :: "unit chroma_lib" where
  "example_query_lib =
     \<lparr>collection_add = (\<lambda>c e m i. c),
      collection_query = (\<lambda>c xq k. (Inr example_query_results, c))\<rparr>"

text \<open>A run of the loop on 130 rows with a collection that records the ids of every
  \<open>add\<close> call: two batches, of 128 and of 2 rows.\<close>

definition example_raw :: "raw_row list" where
  "example_raw =
     replicate 129 \<lparr>raw_id = ''a'', title = ''t'', content' = ''c''\<rparr>
     @ [\<lparr>raw_id = ''b'', title = ''u'', content' = ''d''\<rparr>]"

definition example_chroma_lib :: "string list list chroma_lib" where
  "example_chroma_lib =
     \<lparr>collection_add = (\<lambda>c embeds metas ids. c @ [ids]),
      collection_query = (\<lambda>c xq k. (Inl LibraryError, c))\<rparr>"

definition example_chroma_globals :: "string list list chroma_globals" where
  "example_chroma_globals =
     \<lparr>data = prepare_data example_raw,
      encoder = (\<lambda>texts. map (\<lambda>t. [real (length t)]) texts),
      collection = [],
      groq_chat = (\<lambda>m msgs. Inr [])\<rparr>"

text \<open>Three indexed vectors and a query vector \<open>[1, 1]\<close>, at squared distances 2, 25 and 1.\<close>

definition ranked_faiss_globals :: "(nat list list, vec list) faiss_globals" where
  "ranked_faiss_globals =
     example_faiss_globals
       \<lparr>documents := [''A'', ''B'', ''C''],
        embedder_encode := (\<lambda>texts. map (\<lambda>t. [1, 1]) texts),
        index := [[0, 0], [4, 5], [1, 0]]\<rparr>"

definition ranked_chroma_globals :: "(string \<times> vec \<times> metadata) list chroma_globals" where
  "ranked_chroma_globals =
     \<lparr>data = [],
      encoder = (\<lambda>texts. map (\<lambda>t. [1, 1]) texts),
      collection =
        [(''a'', [0, 0], [''content'' \<mapsto> ''x'']),
         (''b'', [4, 5], [''content'' \<mapsto> ''y'']),
         (''c'', [1, 0], [''content'' \<mapsto> ''z''])],
      groq_chat = (\<lambda>m msgs. Inr [])\<rparr>"

section \<open>Properties of prompt assembly\<close>

lemma sublist_py_join: "d \<in> set docs \<Longrightarrow> sublist d (py_join sep docs)"
proof (induction sep docs rule: py_join.induct)
  case (1 sep)
  then show ?case by simp
next
  case (2 sep x)
  then show ?case by simp
next
  case (3 sep x y ys)
  show ?case
  proof (cases "d = x")
    case True
    then show ?thesis by simp
  next
    case False
    with 3 have "sublist d (py_join sep (y # ys))" by simp
    then obtain ps ss where "py_join sep (y # ys) = ps @ d @ ss"
      by (auto simp: sublist_def)
    then have "py_join sep (x # y # ys) = (x @ sep @ ps) @ d @ ss" by simp
    then show ?thesis unfolding sublist_def by blast
  qed
qed

lemma sublist_in_prefix: "sublist d xs \<Longrightarrow> sublist d (xs @ ys)"
  by (auto simp: sublist_def) (metis append.assoc)

lemma sublist_in_suffix: "sublist d ys \<Longrightarrow> sublist d (xs @ ys)"
  by (auto simp: sublist_def) (metis append.assoc)

text \<open>
  C1. In each of the three prompt assemblers the assembled prompt contains the query
  text and every retrieved document text verbatim (as a contiguous substring):
  the input text of \<open>rag\<close>, the input text of \<open>generate_answer\<close>, and the two chat
  messages of \<open>generate\<close> (every document in the system message, the query as the user
  message).
\<close>

theorem prompt_contains_query_and_docs:
  "sublist question (rag_input_text docs question)
   \<and> (\<forall>d \<in> set docs. sublist d (rag_input_text docs question))
   \<and> sublist question (generate_answer_input_text question docs)
   \<and> (\<forall>d \<in> set docs. sublist d (generate_answer_input_text question docs))
   \<and> map role (generate_messages question docs) = [''system'', ''user'']
   \<and> map content (generate_messages question docs) ! 1 = question
   \<and> (\<forall>d \<in> set docs. sublist d (map content (generate_messages question docs) ! 0))"
proof -
  have q1: "sublist question (rag_input_text docs question)"
    unfolding rag_input_text_def by (intro sublist_in_suffix) simp
  have d1: "sublist d (rag_input_text docs question)" if "d \<in> set docs" for d
    unfolding rag_input_text_def by (intro sublist_in_prefix sublist_py_join that)
  have q2: "sublist question (generate_answer_input_text question docs)"
    unfolding generate_answer_input_text_def Let_def
    by (intro sublist_in_suffix sublist_in_prefix) simp
  have d2: "sublist d (generate_answer_input_text question docs)" if "d \<in> set docs" for d
    unfolding generate_answer_input_text_def Let_def
    by (intro sublist_in_suffix sublist_py_join that)
  have r3: "map role (generate_messages question docs) = [''system'', ''user'']"
    by (simp add: generate_messages_def Let_def)
  have q3: "map content (generate_messages question docs) ! 1 = question"
    by (simp add: generate_messages_def Let_def)
  have d3: "sublist d (map content (generate_messages question docs) ! 0)"
    if "d \<in> set docs" for d
    using that by (simp add: generate_messages_def Let_def sublist_py_join)
  from q1 d1 q2 d2 r3 q3 d3 show ?thesis by blast
qed

theorem prompt_contains_query_and_docs_witness:
  "sublist ''q?'' (rag_input_text [''ab'', ''cd''] ''q?'')
   \<and> sublist ''ab'' (rag_input_text [''ab'', ''cd''] ''q?'')
   \<and> sublist ''cd'' (rag_input_text [''ab'', ''cd''] ''q?'')
   \<and> rag_input_text [''ab'', ''cd''] ''q?'' = ''ab cd q?''
   \<and> sublist ''cd'' (generate_answer_input_text ''q?'' [''ab'', ''cd''])
   \<and> generate_answer_input_text ''q?'' [''ab'', ''cd'']
       = ''summarize: question: q? context: ab cd''
   \<and> sublist ''cd'' (map content (generate_messages ''q?'' [''ab'', ''cd'']) ! 0)
   \<and> map content (generate_messages ''q?'' [''ab'', ''cd'']) ! 1 = ''q?''"
  using prompt_contains_query_and_docs [of "''q?''" "[''ab'', ''cd'']"]
  by (simp add: rag_input_text_def generate_answer_input_text_def)


section \<open>Properties of retrieval from ChromaDB\<close>

text \<open>
  C9. \<open>get_docs\<close> is total over the retrieved metadata: whenever the collection's
  query returns a result, \<open>get_docs\<close> returns a list with one entry per retrieved
  metadata dict, in the order of the flattened result sublists; the entry is the value
  under the key "content", and the empty string where that key is missing.
\<close>

theorem get_docs_total:
  assumes "collection_query lib (collection g) (encoder g [query]) top_k = (Inr results, c')"
  shows "\<exists>docs. fst (get_docs lib g query top_k) = Inr docs
           \<and> length docs = length (concat (metadatas results))
           \<and> (\<forall>i < length docs.
                 docs ! i = (case (concat (metadatas results) ! i) ''content'' of
                               None \<Rightarrow> [] | Some v \<Rightarrow> v))"
proof -
  let ?ms = "concat (metadatas results)"
  let ?docs = "map (\<lambda>m. py_dict_get m ''content'' []) ?ms"
  have "fst (get_docs lib g query top_k) = Inr ?docs"
    using assms by (simp add: get_docs_def Let_def map_concat)
  moreover have "length ?docs = length ?ms" by simp
  moreover have "\<forall>i < length ?docs. ?docs ! i = (case (?ms ! i) ''content'' of
                               None \<Rightarrow> [] | Some v \<Rightarrow> v)"
    by (simp add: py_dict_get_def)
  ultimately show ?thesis by blast
qed

theorem get_docs_total_witness:
  "fst (get_docs example_query_lib example_query_globals ''q'' 2) = Inr [''x'', []]"
proof -
  have q: "collection_query example_query_lib (collection example_query_globals)
             (encoder example_query_globals [''q'']) 2 = (Inr example_query_results, ())"
    by (simp add: example_query_lib_def)
  from get_docs_total [OF q] obtain docs where
    docs: "fst (get_docs example_query_lib example_query_globals ''q'' 2) = Inr docs"
    by blast
  have "fst (get_docs example_query_lib example_query_globals ''q'' 2) = Inr [''x'', []]"
    by (simp add: get_docs_def example_query_lib_def example_query_results_def
        py_dict_get_def)
  with docs show ?thesis by simp
qed

section \<open>Properties of the batched insertion loop\<close>

declare py_range.simps [simp del]






lemma chunk_prepare_row:
  "chunk (metadata (prepare_row x)) = Inr (title x @ '': '' @ content' x)"
  by (simp add: chunk_def prepare_row_def py_dict_getitem_def)

lemma row_id_prepare_row: "row_id (prepare_row x) = raw_id x"
  by (simp add: prepare_row_def)

lemma chunks_prepared:
  "py_comprehension chunk (map metadata (map prepare_row b))
     = Inr (map (\<lambda>x. title x @ '': '' @ content' x) b)"
  by (induction b) (simp_all add: chunk_prepare_row)

text \<open>One iteration of the loop on prepared data, when the encoder returns one
  embedding per chunk: both assertions pass and the batch is handed to
  \<open>collection.add\<close>.\<close>

lemma insert_batch_prepared:
  assumes enc: "\<And>chunks. length (encoder g chunks) = length chunks"
    and d: "data g = prepare_data raw"
  shows "insert_batch lib g i =
     Inr (g\<lparr>collection := add_batch lib (encoder g) (collection g)
                (py_slice raw i (min (length raw) (i + batch_size)))\<rparr>)"
proof -
  let ?b = "py_slice raw i (min (length raw) (i + batch_size))"
  have slice: "py_slice (data g) i (min (length (data g)) (i + batch_size))
      = map prepare_row ?b"
    by (simp add: d prepare_data_def py_slice_def drop_map take_map)
  have chunks: "py_comprehension chunk (map metadata (map prepare_row ?b))
      = Inr (map (\<lambda>x. title x @ '': '' @ content' x) ?b)"
    by (rule chunks_prepared)
  show ?thesis
    unfolding insert_batch_def Let_def slice chunks
    by (simp add: enc comp_def row_id_prepare_row add_batch_def)
qed

lemma for_loop_insert_prepared:
  "(\<And>chunks. length (encoder g chunks) = length chunks) \<Longrightarrow> data g = prepare_data raw \<Longrightarrow>
   for_loop (insert_batch lib) starts g =
     Inr (g\<lparr>collection := foldl (add_batch lib (encoder g)) (collection g)
            (map (\<lambda>i. py_slice raw i (min (length raw) (i + batch_size))) starts)\<rparr>)"
proof (induction starts arbitrary: g)
  case Nil
  then show ?case by simp
next
  case (Cons i starts)
  let ?g = "g\<lparr>collection := add_batch lib (encoder g) (collection g)
                (py_slice raw i (min (length raw) (i + batch_size)))\<rparr>"
  have step: "insert_batch lib g i = Inr ?g"
    using Cons.prems by (rule insert_batch_prepared)
  have "for_loop (insert_batch lib) starts ?g =
     Inr (?g\<lparr>collection := foldl (add_batch lib (encoder ?g)) (collection ?g)
            (map (\<lambda>i. py_slice raw i (min (length raw) (i + batch_size))) starts)\<rparr>)"
    using Cons.prems by (intro Cons.IH) simp_all
  with step show ?case by simp
qed


lemma example_batches:
  "batches example_raw =
     [replicate 128 \<lparr>raw_id = ''a'', title = ''t'', content' = ''c''\<rparr>,
      [\<lparr>raw_id = ''a'', title = ''t'', content' = ''c''\<rparr>,
       \<lparr>raw_id = ''b'', title = ''u'', content' = ''d''\<rparr>]]"
proof -
  have r: "py_range 0 130 128 = [0, 128]"
    by (simp add: py_range.simps)
  have "replicate 129 \<lparr>raw_id = ''a'', title = ''t'', content' = ''c''\<rparr>
      = replicate 128 \<lparr>raw_id = ''a'', title = ''t'', content' = ''c''\<rparr>
        @ [\<lparr>raw_id = ''a'', title = ''t'', content' = ''c''\<rparr>]"
    using replicate_add [of 128 1 "\<lparr>raw_id = ''a'', title = ''t'', content' = ''c''\<rparr>"]
    by simp
  then show ?thesis
    by (simp add: batches_def example_raw_def r batch_size_def py_slice_def)
qed


section \<open>Properties of the embedder\<close>

lemma length_mean_tokens:
  "row \<noteq> [] \<Longrightarrow> \<forall>t \<in> set row. length t = H \<Longrightarrow> length (mean_tokens row) = H"
  by (cases row) (simp_all add: mean_tokens_def)

lemma nth_mean_tokens:
  "row \<noteq> [] \<Longrightarrow> \<forall>t \<in> set row. length t = H \<Longrightarrow> h < H \<Longrightarrow>
   mean_tokens row ! h = (\<Sum>t\<leftarrow>row. t ! h) / real (length row)"
  by (cases row) (simp_all add: mean_tokens_def)

text \<open>
  C6. For every list of texts, \<open>embed\<close> returns one vector per text, all of the model's
  hidden dimension, and the i-th vector is the mean over the token axis of the i-th
  row of the model's output, that is of the i-th text. The tokenizer and the model
  are library calls; the hypotheses are the shape of what they return
  (one row of at least one token per text, every token vector of length \<open>H\<close>).
\<close>

theorem embed_one_vector_per_text:
  assumes rows: "length (model g (tokenizer g texts)) = length texts"
    and shape: "\<forall>row \<in> set (model g (tokenizer g texts)).
                  row \<noteq> [] \<and> (\<forall>t \<in> set row. length t = H)"
  shows "length (embed g texts) = length texts
    \<and> (\<forall>v \<in> set (embed g texts). length v = H)
    \<and> (\<forall>i < length texts. \<forall>h < H.
          embed g texts ! i ! h
            = (\<Sum>t\<leftarrow>model g (tokenizer g texts) ! i. t ! h)
                / real (length (model g (tokenizer g texts) ! i)))"
proof -
  let ?out = "model g (tokenizer g texts)"
  have e: "embed g texts = map mean_tokens ?out"
    by (simp add: embed_def mean_dim1_def)
  have len: "length (embed g texts) = length texts"
    by (simp add: e rows)
  have dim: "\<forall>v \<in> set (embed g texts). length v = H"
    using shape by (auto simp: e length_mean_tokens)
  have nth: "embed g texts ! i ! h = (\<Sum>t\<leftarrow>?out ! i. t ! h) / real (length (?out ! i))"
    if "i < length texts" "h < H" for i h
  proof -
    from that rows have i: "i < length ?out" by simp
    then have "?out ! i \<in> set ?out" by simp
    with shape have "?out ! i \<noteq> []" "\<forall>t \<in> set (?out ! i). length t = H" by auto
    then have "mean_tokens (?out ! i) ! h
        = (\<Sum>t\<leftarrow>?out ! i. t ! h) / real (length (?out ! i))"
      using that(2) by (rule nth_mean_tokens)
    with i show ?thesis by (simp add: e)
  qed
  from len dim nth show ?thesis by blast
qed

theorem embed_one_vector_per_text_witness:
  "length (model example_faiss_globals (tokenizer example_faiss_globals [''ab'', ''c'']))
     = length [''ab'', ''c'']
   \<and> embed example_faiss_globals [''ab'', ''c''] = [[3, 2], [2, 2]]
   \<and> length (embed example_faiss_globals [''ab'', ''c'']) = 2"
proof -
  have rows: "length (model example_faiss_globals
                 (tokenizer example_faiss_globals [''ab'', ''c''])) = length [''ab'', ''c'']"
    by (simp add: example_faiss_globals_def)
  have shape: "\<forall>row \<in> set (model example_faiss_globals
                   (tokenizer example_faiss_globals [''ab'', ''c''])).
                  row \<noteq> [] \<and> (\<forall>t \<in> set row. length t = 2)"
    by (simp add: example_faiss_globals_def)
  have val: "embed example_faiss_globals [''ab'', ''c''] = [[3, 2], [2, 2]]"
    by (simp add: embed_def mean_dim1_def mean_tokens_def example_faiss_globals_def
        upt_rec [of 0] upt_rec [of 1])
  from embed_one_vector_per_text [OF rows shape] rows val show ?thesis by simp
qed

section \<open>Reading the documents at the returned indices\<close>

lemma py_comprehension_total:
  "(\<And>x. x \<in> set xs \<Longrightarrow> f x = Inr (h x)) \<Longrightarrow> py_comprehension f xs = Inr (map h xs)"
  by (induction xs) simp_all

lemma py_getitem_nat: "i < length xs \<Longrightarrow> py_getitem xs (int i) = Inr (xs ! i)"
  by (simp add: py_getitem_def)

lemma retrieved_docs_in_range:
  "\<forall>i \<in> set is. i < length docs \<Longrightarrow>
   retrieved_docs docs [map int is] = Inr (map (\<lambda>i. docs ! i) is)"
proof -
  assume r: "\<forall>i \<in> set is. i < length docs"
  have "py_comprehension (\<lambda>idx. py_getitem docs idx) (map int is)
      = Inr (map (\<lambda>idx. docs ! nat idx) (map int is))"
    using r by (intro py_comprehension_total) (auto simp: py_getitem_nat)
  moreover have "py_getitem [map int is] 0 = Inr (map int is)"
    by (simp add: py_getitem_def)
  ultimately show ?thesis
    by (simp add: retrieved_docs_def comp_def)
qed

lemma py_comprehension_length:
  "py_comprehension f xs = Inr ys \<Longrightarrow> length ys = length xs"
  by (induction xs arbitrary: ys) (auto split: sum.splits)

text \<open>The comprehension never drops a label: when it returns, it returns as many
  documents as the first row of \<open>indices\<close> has labels.\<close>

lemma retrieved_docs_one_per_label:
  "retrieved_docs docs (row # rows) = Inr ds \<Longrightarrow> length ds = length row"
  by (simp add: retrieved_docs_def py_getitem_def py_comprehension_length)

lemma retrieved_docs_valid_labels:
  assumes "\<forall>i \<in> set row. 0 \<le> i \<and> i < int (length docs)"
  shows "retrieved_docs docs (row # rows) = Inr (map (\<lambda>i. docs ! nat i) row)"
proof -
  have "py_comprehension (\<lambda>idx. py_getitem docs idx) row = Inr (map (\<lambda>i. docs ! nat i) row)"
    using assms by (intro py_comprehension_total) (simp add: py_getitem_def)
  moreover have "py_getitem (row # rows) 0 = Inr row"
    by (simp add: py_getitem_def)
  ultimately show ?thesis by (simp add: retrieved_docs_def)
qed

lemma length_distinct_labels:
  assumes r: "\<forall>i \<in> set row. 0 \<le> i \<and> i < int n" and d: "distinct (row :: int list)"
  shows "length row \<le> n"
proof -
  have "set row \<subseteq> int ` {0..<n}"
  proof
    fix i assume "i \<in> set row"
    with r have "0 \<le> i" "i < int n" by auto
    then have "i = int (nat i)" "nat i < n" by auto
    then show "i \<in> int ` {0..<n}" by (metis atLeastLessThan_iff image_eqI zero_le)
  qed
  then have "card (set row) \<le> card (int ` {0..<n})"
    by (intro card_mono) auto
  also have "\<dots> \<le> n" using card_image_le [of "{0..<n}" int] by simp
  finally show ?thesis using d by (simp add: distinct_card)
qed

text \<open>
  C2, as the code has it. When \<open>index.search\<close> returns a row of at most \<open>k\<close> pairwise
  different labels that are all positions of documents (in \<open>[0, N)\<close>), the retrieval
  of \<open>rag\<close> and of \<open>retrieve_documents\<close> returns exactly the documents at these labels,
  in the order of the row: one per label, so at most \<open>min(k, N)\<close> documents, each chosen
  by a label in range. The functions do not check the labels themselves.
\<close>

theorem retrieve_valid_labels:
  assumes s: "index_search lib (index g) (E [query]) k = (Inr (dists, row # rows), ix)"
    and range: "\<forall>i \<in> set row. 0 \<le> i \<and> i < int (length (documents g))"
    and dist: "distinct row"
    and atmost: "length row \<le> k"
  shows "fst (retrieve lib E g query k) = Inr (map (\<lambda>i. documents g ! nat i) row)
    \<and> (E = embedder_encode g \<longrightarrow>
          fst (retrieve_documents lib g query k) = Inr (map (\<lambda>i. documents g ! nat i) row))
    \<and> length (map (\<lambda>i. documents g ! nat i) row) = length row
    \<and> length (map (\<lambda>i. documents g ! nat i) row) \<le> min k (length (documents g))"
proof -
  have "retrieved_docs (documents g) (row # rows) = Inr (map (\<lambda>i. documents g ! nat i) row)"
    using range by (rule retrieved_docs_valid_labels)
  then have 1: "fst (retrieve lib E g query k) = Inr (map (\<lambda>i. documents g ! nat i) row)"
    using s by (simp add: retrieve_def)
  have "length row \<le> length (documents g)"
    using range dist by (rule length_distinct_labels)
  with atmost have 2: "length (map (\<lambda>i. documents g ! nat i) row) \<le> min k (length (documents g))"
    by simp
  from 1 2 show ?thesis by (auto simp: retrieve_documents_def)
qed

theorem retrieve_valid_labels_witness:
  "index_search two_hits_lib (index three_documents)
      (embedder_encode three_documents [''q'']) 2 = (Inr ([[1, 2]], [[2, 0]]), ())
   \<and> fst (retrieve_documents two_hits_lib three_documents ''q'' 2) = Inr [''d2'', ''d0'']
   \<and> length [''d2'', ''d0''] \<le> min 2 (length (documents three_documents))"
proof -
  have s: "index_search two_hits_lib (index three_documents)
      (embedder_encode three_documents [''q'']) 2 = (Inr ([[1, 2]], [[2, 0]]), ())"
    by (simp add: two_hits_lib_def)
  have d: "documents three_documents = [''d0'', ''d1'', ''d2'']"
    by (simp add: three_documents_def)
  have range: "\<forall>i \<in> set [2, 0]. 0 \<le> i \<and> i < int (length (documents three_documents))"
    by (simp add: d)
  have dist: "distinct [2, 0 :: int]" by simp
  have atmost: "length [2, 0 :: int] \<le> 2" by simp
  from retrieve_valid_labels [where lib = two_hits_lib and g = three_documents
      and E = "embedder_encode three_documents" and query = "''q''" and k = 2
      and row = "[2, 0]" and rows = "[]" and dists = "[[1, 2]]" and ix = "()",
      OF s range dist atmost]
  have "fst (retrieve_documents two_hits_lib three_documents ''q'' 2) = Inr [''d2'', ''d0'']"
    by (simp add: d)
  with s d show ?thesis by simp
qed

text \<open>
  The claim C2 as stated does not hold of the code: the retrieved list holds one
  document per label of the row that \<open>index.search\<close> returned, whatever the labels are.
  On three documents, the row \<open>[0, 2, 1, -1, -1]\<close> (five requested, three found, two
  slots marked \<open>-1\<close>) yields five documents, more than \<open>min(5, 3)\<close>, the last two being
  the last document again, read through the label \<open>-1\<close>.
\<close>

theorem retrieved_docs_placeholder_labels:
  "retrieved_docs [''d0'', ''d1'', ''d2''] [[0, 2, 1, - 1, - 1]]
     = Inr [''d0'', ''d2'', ''d1'', ''d2'', ''d2'']
   \<and> fst (retrieve_documents padded_search_lib three_documents ''q'' 5)
     = Inr [''d0'', ''d2'', ''d1'', ''d2'', ''d2'']
   \<and> length [''d0'', ''d2'', ''d1'', ''d2'', ''d2''] > min 5 (length (documents three_documents))"
  by (simp add: retrieved_docs_def py_getitem_def retrieve_documents_def retrieve_def
      padded_search_lib_def three_documents_def)

section \<open>Query-time operations and the index\<close>

lemma retrieve_frame:
  assumes "\<forall>ix qs k. snd (index_search lib ix qs k) = ix"
  shows "snd (retrieve lib E g query k) = g"
proof -
  obtain r ix where s: "index_search lib (index g) (E [query]) k = (r, ix)"
    by (cases "index_search lib (index g) (E [query]) k")
  with assms have "ix = index g" by (metis snd_conv)
  with s show ?thesis
    by (simp add: retrieve_def split: sum.splits prod.splits)
qed

lemma get_docs_frame:
  assumes "\<forall>c qs k. snd (collection_query lib c qs k) = c"
  shows "snd (get_docs lib g query k) = g"
proof -
  obtain r c where s: "collection_query lib (collection g) (encoder g [query]) k = (r, c)"
    by (cases "collection_query lib (collection g) (encoder g [query]) k")
  with assms have "c = collection g" by (metis snd_conv)
  with s show ?thesis
    by (simp add: get_docs_def split: sum.splits)
qed

text \<open>
  C8. Every query-time operation leaves the index and the corpus as they were: when
  the library's \<open>search\<close> and \<open>query\<close> do not change the index they are called on, the
  globals after \<open>rag\<close>, \<open>retrieve_documents\<close>, \<open>generate_answer\<close>, \<open>get_docs\<close> and
  \<open>generate\<close> equal the globals before (so do, in particular, \<open>index\<close>, \<open>documents\<close>,
  \<open>collection\<close> and \<open>data\<close>); the functions themselves write nothing.
\<close>

theorem query_time_frame:
  assumes ro_search: "\<forall>ix qs k. snd (index_search lib ix qs k) = ix"
    and ro_query: "\<forall>c qs k. snd (collection_query clib c qs k) = c"
  shows "snd (rag lib g question top_k) = g
    \<and> snd (retrieve_documents lib g query k) = g
    \<and> snd (generate_answer g question docs) = g
    \<and> snd (get_docs clib cg query top_k) = cg
    \<and> snd (generate cg query docs) = cg"
proof -
  have r: "snd (retrieve lib (embed g) g question top_k) = g"
    using ro_search by (rule retrieve_frame)
  have 1: "snd (rag lib g question top_k) = g"
    using r by (cases "retrieve lib (embed g) g question top_k")
      (auto simp: rag_def split: sum.splits)
  have 2: "snd (retrieve_documents lib g query k) = g"
    unfolding retrieve_documents_def using ro_search by (rule retrieve_frame)
  have 3: "snd (generate_answer g question docs) = g"
    by (simp add: generate_answer_def)
  have 4: "snd (get_docs clib cg query top_k) = cg"
    using ro_query by (rule get_docs_frame)
  have 5: "snd (generate cg query docs) = cg"
    by (simp add: generate_def Let_def split: sum.splits)
  from 1 2 3 4 5 show ?thesis by blast
qed

text \<open>The documents are never written, whatever the library does to the index.\<close>

lemma retrieve_documents_unchanged:
  "documents (snd (retrieve lib E g query k)) = documents g"
  by (simp add: retrieve_def Let_def split: prod.splits sum.splits)

theorem query_time_frame_witness:
  "(\<forall>ix qs k. snd (index_search padded_search_lib ix qs k) = ix)
   \<and> (\<forall>c qs k. snd (collection_query example_query_lib c qs k) = c)
   \<and> snd (rag padded_search_lib three_documents ''q'' 5) = three_documents
   \<and> fst (rag padded_search_lib three_documents ''q'' 5) = Inr ''x''
   \<and> snd (get_docs example_query_lib example_query_globals ''q'' 5) = example_query_globals"
proof -
  have a: "\<forall>ix qs k. snd (index_search padded_search_lib ix qs k) = ix"
    by (simp add: padded_search_lib_def)
  have b: "\<forall>c qs k. snd (collection_query example_query_lib c qs k) = c"
    by (simp add: example_query_lib_def)
  have v: "fst (rag padded_search_lib three_documents ''q'' 5) = Inr ''x''"
    by (simp add: rag_def retrieve_def retrieved_docs_def py_getitem_def run_generator_def
        padded_search_lib_def three_documents_def)
  from query_time_frame [OF a b, where g = three_documents and question = "''q''"
      and top_k = 5 and cg = example_query_globals and query = "''q''"] a b v
  have "snd (rag padded_search_lib three_documents ''q'' 5) = three_documents
    \<and> snd (get_docs example_query_lib example_query_globals ''q'' 5) = example_query_globals"
    by simp
  with a b v show ?thesis by simp
qed

section \<open>Properties of retrieval over the search of the specification\<close>

subsection \<open>The distance\<close>

lemma l2sq_Cons: "l2sq (a # x) (b # y) = (a - b)^2 + l2sq x y"
  by (simp add: l2sq_def)

lemma l2sq_nonneg: "0 \<le> l2sq x y"
  unfolding l2sq_def by (rule sum_list_nonneg) auto

lemma l2sq_self: "l2sq x x = 0"
  by (induction x) (simp_all add: l2sq_def)

lemma l2sq_eq_0:
  "length x = length y \<Longrightarrow> l2sq x y = 0 \<Longrightarrow> x = y"
proof (induction x y rule: list_induct2)
  case Nil
  then show ?case by simp
next
  case (Cons a x b y)
  have s: "(a - b)^2 + l2sq x y = 0"
    using Cons.prems by (simp add: l2sq_Cons)
  have n1: "0 \<le> (a - b)^2" by simp
  have n2: "0 \<le> l2sq x y" by (rule l2sq_nonneg)
  from s n1 n2 have "(a - b)^2 = 0" and z: "l2sq x y = 0" by linarith+
  then have "a = b" by simp
  with Cons.IH [OF z] show ?case by simp
qed

subsection \<open>The ranking\<close>

lemma length_nearest: "length (nearest xb q k) = min k (length xb)"
  by (simp add: nearest_def min.commute)

lemma sorted_nearest: "sorted (map snd (nearest xb q k))"
proof -
  have "sorted (map snd (sort_key snd (zip [0..<length xb] (map (l2sq q) xb))))"
    by (rule sorted_sort_key)
  then have "sorted (take k (map snd (sort_key snd (zip [0..<length xb] (map (l2sq q) xb)))))"
    by (rule sorted_wrt_take)
  then show ?thesis by (simp add: nearest_def take_map)
qed

lemma in_nearest:
  assumes "p \<in> set (nearest xb q k)"
  shows "fst p < length xb \<and> snd p = l2sq q (xb ! fst p)"
proof -
  from assms have "p \<in> set (sort_key snd (zip [0..<length xb] (map (l2sq q) xb)))"
    unfolding nearest_def by (rule in_set_takeD)
  then have "p \<in> set (zip [0..<length xb] (map (l2sq q) xb))" by simp
  then obtain n where n: "n < length xb" and p: "p = ([0..<length xb] ! n, map (l2sq q) xb ! n)"
    by (auto simp: in_set_zip)
  then show ?thesis by simp
qed

lemma distinct_nearest: "distinct (map fst (nearest xb q k))"
proof -
  let ?ps = "zip [0..<length xb] (map (l2sq q) xb)"
  have "distinct (map fst ?ps)" by simp
  then have "distinct ?ps \<and> inj_on fst (set ?ps)"
    by (simp only: distinct_map)
  then have "distinct (map fst (sort_key snd ?ps))"
    by (simp add: distinct_map)
  then have "distinct (take k (map fst (sort_key snd ?ps)))"
    by (rule distinct_take)
  then show ?thesis by (simp add: nearest_def take_map)
qed

text \<open>With pairwise different vectors of one dimension, the nearest vector to a stored
  vector is that vector, at distance 0.\<close>

lemma nearest_exact:
  assumes d: "distinct xb" and dim: "\<forall>v \<in> set xb. length v = n" and j: "j < length xb"
  shows "nearest xb (xb ! j) 1 = [(j, 0)]"
proof -
  let ?q = "xb ! j"
  let ?ps = "zip [0..<length xb] (map (l2sq ?q) xb)"
  let ?s = "sort_key snd ?ps"
  have len: "length ?s = length xb" by simp
  with j obtain p s' where s: "?s = p # s'" by (cases ?s) auto
  have "?ps ! j = (j, 0)" using j by (simp add: l2sq_self)
  moreover have "j < length ?ps" using j by simp
  ultimately have "(j, 0) \<in> set ?ps" by (metis nth_mem)
  then have "(j, 0) \<in> set ?s" by simp
  moreover have "sorted (map snd ?s)" by (rule sorted_sort_key)
  ultimately have le: "snd p \<le> 0" using s by auto
  have "p \<in> set (nearest xb ?q 1)" by (simp add: nearest_def s)
  then have p: "fst p < length xb" "snd p = l2sq ?q (xb ! fst p)"
    using in_nearest by blast+
  with le l2sq_nonneg [of ?q "xb ! fst p"] have z: "l2sq ?q (xb ! fst p) = 0" by simp
  have "length ?q = length (xb ! fst p)" using dim j p(1) by simp
  from l2sq_eq_0 [OF this z] have "xb ! j = xb ! fst p" .
  with d j p(1) have "fst p = j" by (simp add: nth_eq_iff_index_eq)
  with p(2) z have "p = (j, 0)" by (simp add: prod_eq_iff)
  then show ?thesis by (simp add: nearest_def s)
qed

subsection \<open>Retrieval over the search of the specification\<close>

lemma retrieve_flat:
  assumes q: "E [query] = [qv]" and n: "length (documents g) = length (index g)"
  shows "fst (retrieve flat_lib E g query k)
     = Inr (map (\<lambda>p. documents g ! fst p) (nearest (index g) qv k))"
proof -
  have r: "\<forall>i \<in> set (map fst (nearest (index g) qv k)). i < length (documents g)"
    using in_nearest [of _ "index g" qv k] n by auto
  have "retrieved_docs (documents g) [map int (map fst (nearest (index g) qv k))]
      = Inr (map (\<lambda>i. documents g ! i) (map fst (nearest (index g) qv k)))"
    using r by (rule retrieved_docs_in_range)
  then show ?thesis
    by (simp add: retrieve_def flat_lib_def q comp_def)
qed

lemma get_docs_flat:
  assumes q: "encoder g [query] = [qv]"
  shows "fst (get_docs flat_collection_lib g query k)
     = Inr (map (\<lambda>p. py_dict_get (snd (snd (collection g ! fst p))) ''content'' [])
              (nearest (map (\<lambda>r. fst (snd r)) (collection g)) qv k))"
  by (simp add: get_docs_def flat_collection_lib_def q comp_def)

text \<open>
  C3. For every query and every \<open>top_k\<close> that does not exceed the number of indexed
  vectors, the search returns \<open>top_k\<close> pairs (position, distance) of pairwise different
  positions, each distance being the L2 distance of the query vector to the vector at
  that position, in non-decreasing order of distance; \<open>retrieve_documents\<close> returns the
  documents at these positions and \<open>get_docs\<close> the contents of the records at these
  positions, in that order.
\<close>

theorem retrieval_ranked_by_distance:
  assumes k: "top_k \<le> length (index g)"
    and n: "length (documents g) = length (index g)"
    and q: "embedder_encode g [query] = [qv]"
    and ck: "top_k \<le> length (collection cg)"
    and cq: "encoder cg [query] = [qv]"
  shows "length (nearest (index g) qv top_k) = top_k
    \<and> sorted (map snd (nearest (index g) qv top_k))
    \<and> distinct (map fst (nearest (index g) qv top_k))
    \<and> (\<forall>p \<in> set (nearest (index g) qv top_k).
          fst p < length (index g) \<and> snd p = l2sq qv (index g ! fst p))
    \<and> fst (index_search flat_lib (index g) [qv] top_k)
        = Inr ([map snd (nearest (index g) qv top_k)],
               [map (\<lambda>p. int (fst p)) (nearest (index g) qv top_k)])
    \<and> fst (retrieve_documents flat_lib g query top_k)
        = Inr (map (\<lambda>p. documents g ! fst p) (nearest (index g) qv top_k))
    \<and> length (nearest (map (\<lambda>r. fst (snd r)) (collection cg)) qv top_k) = top_k
    \<and> sorted (map snd (nearest (map (\<lambda>r. fst (snd r)) (collection cg)) qv top_k))
    \<and> fst (get_docs flat_collection_lib cg query top_k)
        = Inr (map (\<lambda>p. py_dict_get (snd (snd (collection cg ! fst p))) ''content'' [])
                 (nearest (map (\<lambda>r. fst (snd r)) (collection cg)) qv top_k))"
proof -
  have 1: "length (nearest (index g) qv top_k) = top_k"
    using k by (simp add: length_nearest)
  have 2: "\<forall>p \<in> set (nearest (index g) qv top_k).
          fst p < length (index g) \<and> snd p = l2sq qv (index g ! fst p)"
    using in_nearest by blast
  have 3: "fst (index_search flat_lib (index g) [qv] top_k)
        = Inr ([map snd (nearest (index g) qv top_k)],
               [map (\<lambda>p. int (fst p)) (nearest (index g) qv top_k)])"
    by (simp add: flat_lib_def)
  have 4: "fst (retrieve_documents flat_lib g query top_k)
        = Inr (map (\<lambda>p. documents g ! fst p) (nearest (index g) qv top_k))"
    unfolding retrieve_documents_def using q n by (rule retrieve_flat)
  have 5: "length (nearest (map (\<lambda>r. fst (snd r)) (collection cg)) qv top_k) = top_k"
    using ck by (simp add: length_nearest)
  note 6 = get_docs_flat [OF cq, of top_k]
  from 1 2 3 4 5 6 sorted_nearest distinct_nearest show ?thesis by blast
qed

lemma nearest_example: "nearest [[0, 0], [4, 5], [1, 0]] [1, 1] 2 = [(2, 1), (0, 2)]"
  by (simp add: nearest_def l2sq_def)

theorem retrieval_ranked_by_distance_witness:
  "(2::nat) \<le> length (index ranked_faiss_globals)
   \<and> length (documents ranked_faiss_globals) = length (index ranked_faiss_globals)
   \<and> embedder_encode ranked_faiss_globals [''q''] = [[1, 1]]
   \<and> nearest (index ranked_faiss_globals) [1, 1] 2 = [(2, 1), (0, 2)]
   \<and> fst (retrieve_documents flat_lib ranked_faiss_globals ''q'' 2) = Inr [''C'', ''A'']
   \<and> fst (get_docs flat_collection_lib ranked_chroma_globals ''q'' 2) = Inr [''z'', ''x'']"
proof -
  have k: "(2::nat) \<le> length (index ranked_faiss_globals)"
    by (simp add: ranked_faiss_globals_def)
  have n: "length (documents ranked_faiss_globals) = length (index ranked_faiss_globals)"
    by (simp add: ranked_faiss_globals_def)
  have q: "embedder_encode ranked_faiss_globals [''q''] = [[1, 1]]"
    by (simp add: ranked_faiss_globals_def)
  have ck: "(2::nat) \<le> length (collection ranked_chroma_globals)"
    by (simp add: ranked_chroma_globals_def)
  have cq: "encoder ranked_chroma_globals [''q''] = [[1, 1]]"
    by (simp add: ranked_chroma_globals_def)
  have i: "index ranked_faiss_globals = [[0, 0], [4, 5], [1, 0]]"
    by (simp add: ranked_faiss_globals_def)
  have c: "map (\<lambda>r. fst (snd r)) (collection ranked_chroma_globals)
      = [[0, 0], [4, 5], [1, 0]]"
    by (simp add: ranked_chroma_globals_def)
  have d: "documents ranked_faiss_globals = [''A'', ''B'', ''C'']"
    by (simp add: ranked_faiss_globals_def)
  from retrieval_ranked_by_distance [OF k n q ck cq]
  have "fst (retrieve_documents flat_lib ranked_faiss_globals ''q'' 2) = Inr [''C'', ''A'']
    \<and> fst (get_docs flat_collection_lib ranked_chroma_globals ''q'' 2) = Inr [''z'', ''x'']"
    unfolding i c nearest_example d
    by (simp add: ranked_chroma_globals_def py_dict_get_def)
  with k n q i nearest_example show ?thesis by simp
qed

subsection \<open>A query that is one of the documents\<close>

lemma run_generator_build_index_embed:
  "run_generator (build_index_embed lib g) = run_generator g"
  by (auto simp: run_generator_def build_index_embed_def Let_def fun_eq_iff
      split: sum.splits)

lemma embed_build_index_embed: "embed (build_index_embed lib g) = embed g"
  by (simp add: embed_def build_index_embed_def Let_def fun_eq_iff)

lemma embedder_build_index_embedder:
  "embedder_encode (build_index_embedder lib g) = embedder_encode g"
  by (simp add: build_index_embedder_def Let_def)

lemma retrieve_exact:
  assumes built: "index g = E (documents g)"
    and exact: "E [documents g ! j] = [E (documents g) ! j]"
    and dist: "distinct (E (documents g))"
    and len: "length (E (documents g)) = length (documents g)"
    and dim: "\<forall>v \<in> set (E (documents g)). length v = d"
    and j: "j < length (documents g)"
  shows "fst (retrieve flat_lib E g (documents g ! j) 1) = Inr [documents g ! j]"
proof -
  have n: "length (documents g) = length (index g)"
    by (simp add: built len)
  have q: "E [documents g ! j] = [index g ! j]"
    by (simp add: built exact)
  have "nearest (index g) (index g ! j) 1 = [(j, 0)]"
    using dist dim j by (intro nearest_exact [where n = d]) (simp_all add: built len)
  with retrieve_flat [where E = E and g = g and query = "documents g ! j"
      and qv = "index g ! j" and k = 1, OF q n]
  show ?thesis by simp
qed

text \<open>
  C4. When the embedder returns one vector per text, all of one dimension and pairwise
  different over the corpus, and gives a document embedded alone the vector it has in
  the corpus (exact-match-preserving), then after the index is built, retrieving with
  \<open>k = 1\<close> for a query that is the j-th document returns exactly that document:
  \<open>retrieve_documents\<close> returns the one-element list of it, and \<open>rag\<close> hands the generator
  the prompt made of that document and the question.
\<close>

theorem exact_match_top_hit:
  assumes exact: "E [documents g ! j] = [E (documents g) ! j]"
    and dist: "distinct (E (documents g))"
    and len: "length (E (documents g)) = length (documents g)"
    and dim: "\<forall>v \<in> set (E (documents g)). length v = d"
    and j: "j < length (documents g)"
  shows "(E = embedder_encode g \<longrightarrow>
            fst (retrieve_documents flat_lib (build_index_embedder flat_lib g)
                   (documents g ! j) 1) = Inr [documents g ! j])
    \<and> (E = embed g \<longrightarrow>
            fst (rag flat_lib (build_index_embed flat_lib g) (documents g ! j) 1)
              = run_generator g None 50 2 False (rag_input_text [documents g ! j] (documents g ! j)))"
proof (intro conjI impI)
  assume E: "E = embedder_encode g"
  let ?g = "build_index_embedder flat_lib g"
  have docs: "documents ?g = documents g"
    by (simp add: build_index_embedder_def Let_def)
  have built: "index ?g = E (documents ?g)"
    by (simp add: build_index_embedder_def Let_def flat_lib_def E)
  have "fst (retrieve flat_lib E ?g (documents ?g ! j) 1) = Inr [documents ?g ! j]"
    using built exact dist len dim j unfolding docs [symmetric] by (rule retrieve_exact)
  then show "fst (retrieve_documents flat_lib ?g (documents g ! j) 1) = Inr [documents g ! j]"
    by (simp add: retrieve_documents_def embedder_build_index_embedder E docs)
next
  assume E: "E = embed g"
  let ?g = "build_index_embed flat_lib g"
  have docs: "documents ?g = documents g"
    by (simp add: build_index_embed_def Let_def)
  have built: "index ?g = E (documents ?g)"
    by (simp add: build_index_embed_def Let_def flat_lib_def E)
  have r: "fst (retrieve flat_lib E ?g (documents ?g ! j) 1) = Inr [documents ?g ! j]"
    using built exact dist len dim j unfolding docs [symmetric] by (rule retrieve_exact)
  have fr: "snd (retrieve flat_lib E ?g (documents g ! j) 1) = ?g"
    by (rule retrieve_frame) (simp add: flat_lib_def)
  from r fr have "retrieve flat_lib (embed g) ?g (documents g ! j) 1
      = (Inr [documents g ! j], ?g)"
    by (simp add: E docs prod_eq_iff)
  then show "fst (rag flat_lib ?g (documents g ! j) 1)
      = run_generator g None 50 2 False (rag_input_text [documents g ! j] (documents g ! j))"
    by (simp add: rag_def embed_build_index_embed run_generator_build_index_embed)
qed

theorem exact_match_top_hit_witness:
  "embedder_encode example_faiss_globals [documents example_faiss_globals ! 1]
     = [embedder_encode example_faiss_globals (documents example_faiss_globals) ! 1]
   \<and> embedder_encode example_faiss_globals (documents example_faiss_globals)
     = [[1, 0], [0, 1]]
   \<and> index (build_index_embedder flat_lib example_faiss_globals) = [[1, 0], [0, 1]]
   \<and> fst (retrieve_documents flat_lib (build_index_embedder flat_lib example_faiss_globals)
            ''B'' 1) = Inr [''B'']"
proof -
  let ?g = example_faiss_globals
  let ?E = "embedder_encode ?g"
  have docs: "documents ?g = [''A'', ''B'']"
    by (simp add: example_faiss_globals_def)
  have vecs: "?E (documents ?g) = [[1, 0], [0, 1]]"
    by (simp add: example_faiss_globals_def)
  have exact: "?E [documents ?g ! 1] = [?E (documents ?g) ! 1]"
    by (simp add: example_faiss_globals_def)
  have dist: "distinct (?E (documents ?g))"
    by (simp add: vecs)
  have len: "length (?E (documents ?g)) = length (documents ?g)"
    by (simp only: vecs) (simp add: docs)
  have dim: "\<forall>v \<in> set (?E (documents ?g)). length v = 2"
    by (simp add: vecs)
  have j: "1 < length (documents ?g)"
    by (simp add: docs)
  have ix: "index (build_index_embedder flat_lib ?g) = [[1, 0], [0, 1]]"
    by (simp add: build_index_embedder_def Let_def flat_lib_def vecs)
  from exact_match_top_hit [OF exact dist len dim j]
  have "fst (retrieve_documents flat_lib (build_index_embedder flat_lib ?g) ''B'' 1)
      = Inr [''B'']"
    by (simp add: docs)
  with exact vecs ix show ?thesis by simp
qed

section \<open>One embedder for the corpus and for the query\<close>

lemma for_loop_insert_encoder:
  "for_loop (insert_batch lib) starts g = Inr g' \<Longrightarrow> encoder g' = encoder g \<and> data g' = data g"
proof (induction starts arbitrary: g)
  case Nil
  then show ?case by simp
next
  case (Cons i starts)
  from Cons.prems obtain g1 where s: "insert_batch lib g i = Inr g1"
    and r: "for_loop (insert_batch lib) starts g1 = Inr g'"
    by (auto split: sum.splits)
  from s have "encoder g1 = encoder g \<and> data g1 = data g"
    by (auto simp: insert_batch_def Let_def split: if_splits sum.splits)
  with Cons.IH [OF r] show ?case by simp
qed

text \<open>
  C7. In every pipeline the corpus and the query are embedded by the same function.
  First example: the state after the index is built holds an index made of
  \<open>embed\<close> of the documents, and \<open>rag\<close>, run in that state, embeds the question with that
  same \<open>embed\<close>. Second example: likewise with \<open>embedder.encode\<close> and
  \<open>retrieve_documents\<close>. ChromaDB example: in the state the insertion loop ends in,
  \<open>encoder\<close> is the function the loop embedded the chunks with, and the collection is
  made of that function's embeddings of the batches; \<open>get_docs\<close> reads \<open>encoder\<close> there.
\<close>

theorem same_embedder_for_corpus_and_query:
  "embed (build_index_embed lib g) = embed g
   \<and> documents (build_index_embed lib g) = documents g
   \<and> index (build_index_embed lib g)
       = index_add lib (IndexFlatL2 lib (shape1 (embed g (documents g))))
           (embed g (documents g))
   \<and> rag lib (build_index_embed lib g) question k
       = (case retrieve lib (embed g) (build_index_embed lib g) question k of
            (Inl e, g') \<Rightarrow> (Inl e, g')
          | (Inr docs, g') \<Rightarrow> (run_generator g' None 50 2 False (rag_input_text docs question), g'))
   \<and> embedder_encode (build_index_embedder lib g) = embedder_encode g
   \<and> documents (build_index_embedder lib g) = documents g
   \<and> index (build_index_embedder lib g)
       = index_add lib (IndexFlatL2 lib (shape1 (embedder_encode g (documents g))))
           (embedder_encode g (documents g))
   \<and> retrieve_documents lib (build_index_embedder lib g) query k
       = retrieve lib (embedder_encode g) (build_index_embedder lib g) query k
   \<and> (\<forall>cg'. insert_all clib cg = Inr cg' \<longrightarrow>
         encoder cg' = encoder cg
       \<and> get_docs clib cg' query k = get_docs clib (cg'\<lparr>encoder := encoder cg\<rparr>) query k
       \<and> ((\<forall>chunks. length (encoder cg chunks) = length chunks) \<and> data cg = prepare_data raw
            \<longrightarrow> collection cg'
                = foldl (add_batch clib (encoder cg)) (collection cg) (batches raw)))"
proof -
  have 1: "embed (build_index_embed lib g) = embed g"
    by (rule embed_build_index_embed)
  have 2: "documents (build_index_embed lib g) = documents g"
    by (simp add: build_index_embed_def Let_def)
  have 3: "index (build_index_embed lib g)
       = index_add lib (IndexFlatL2 lib (shape1 (embed g (documents g))))
           (embed g (documents g))"
    by (simp add: build_index_embed_def Let_def)
  have 4: "rag lib (build_index_embed lib g) question k
       = (case retrieve lib (embed g) (build_index_embed lib g) question k of
            (Inl e, g') \<Rightarrow> (Inl e, g')
          | (Inr docs, g') \<Rightarrow> (run_generator g' None 50 2 False (rag_input_text docs question), g'))"
    by (simp add: rag_def 1)
  have 5: "embedder_encode (build_index_embedder lib g) = embedder_encode g"
    by (rule embedder_build_index_embedder)
  have 6: "documents (build_index_embedder lib g) = documents g"
    by (simp add: build_index_embedder_def Let_def)
  have 7: "index (build_index_embedder lib g)
       = index_add lib (IndexFlatL2 lib (shape1 (embedder_encode g (documents g))))
           (embedder_encode g (documents g))"
    by (simp add: build_index_embedder_def Let_def)
  have 8: "retrieve_documents lib (build_index_embedder lib g) query k
       = retrieve lib (embedder_encode g) (build_index_embedder lib g) query k"
    by (simp add: retrieve_documents_def 5)
  have 9: "encoder cg' = encoder cg
       \<and> get_docs clib cg' query k = get_docs clib (cg'\<lparr>encoder := encoder cg\<rparr>) query k
       \<and> ((\<forall>chunks. length (encoder cg chunks) = length chunks) \<and> data cg = prepare_data raw
            \<longrightarrow> collection cg'
                = foldl (add_batch clib (encoder cg)) (collection cg) (batches raw))"
    if run: "insert_all clib cg = Inr cg'" for cg'
  proof -
    from run have e: "encoder cg' = encoder cg"
      unfolding insert_all_def using for_loop_insert_encoder by blast
    then have "cg'\<lparr>encoder := encoder cg\<rparr> = cg'" by (metis chroma_globals.surjective
          chroma_globals.update_convs(2) chroma_globals.select_convs(2))
    then have gd: "get_docs clib cg' query k
        = get_docs clib (cg'\<lparr>encoder := encoder cg\<rparr>) query k"
      by simp
    have "collection cg' = foldl (add_batch clib (encoder cg)) (collection cg) (batches raw)"
      if enc: "\<forall>chunks. length (encoder cg chunks) = length chunks"
        and d: "data cg = prepare_data raw"
    proof -
      have len: "length (data cg) = length raw"
        by (simp add: d prepare_data_def)
      have "insert_all clib cg =
        Inr (cg\<lparr>collection :=
               foldl (add_batch clib (encoder cg)) (collection cg) (batches raw)\<rparr>)"
        unfolding insert_all_def batches_def len
        using enc d by (intro for_loop_insert_prepared) simp_all
      with run show ?thesis by auto
    qed
    with e gd show ?thesis by blast
  qed
  from 1 2 3 4 5 6 7 8 9 show ?thesis by blast
qed

theorem same_embedder_for_corpus_and_query_witness:
  "map_sum id collection (insert_all example_chroma_lib example_chroma_globals)
     = Inr [replicate 128 ''a'', [''a'', ''b'']]
   \<and> index (build_index_embedder flat_lib example_faiss_globals)
     = embedder_encode example_faiss_globals (documents example_faiss_globals)
   \<and> index (build_index_embed flat_lib example_faiss_globals)
     = embed example_faiss_globals (documents example_faiss_globals)"
proof -
  have enc: "\<forall>chunks. length (encoder example_chroma_globals chunks) = length chunks"
    by (simp add: example_chroma_globals_def)
  have d: "data example_chroma_globals = prepare_data example_raw"
    by (simp add: example_chroma_globals_def)
  have len: "length (data example_chroma_globals) = length example_raw"
    by (simp add: d prepare_data_def)
  have run: "insert_all example_chroma_lib example_chroma_globals =
      Inr (example_chroma_globals\<lparr>collection :=
             foldl (add_batch example_chroma_lib (encoder example_chroma_globals))
               (collection example_chroma_globals) (batches example_raw)\<rparr>)"
    unfolding insert_all_def batches_def len
    using enc d by (intro for_loop_insert_prepared) simp_all
  note t = same_embedder_for_corpus_and_query
    [of flat_lib example_faiss_globals _ _ _ example_chroma_lib example_chroma_globals
        example_raw]
  have c0: "collection example_chroma_globals = []"
    by (simp add: example_chroma_globals_def)
  have v: "map_sum id collection (insert_all example_chroma_lib example_chroma_globals)
     = Inr [replicate 128 ''a'', [''a'', ''b'']]"
    by (simp only: run) (simp add: example_batches add_batch_def example_chroma_lib_def c0)
  from t have "index (build_index_embedder flat_lib example_faiss_globals)
     = embedder_encode example_faiss_globals (documents example_faiss_globals)
   \<and> index (build_index_embed flat_lib example_faiss_globals)
     = embed example_faiss_globals (documents example_faiss_globals)"
    by (simp add: flat_lib_def)
  with v show ?thesis by simp
qed

end
